theory Spec2Isabelle
  imports Main
begin

section \<open>Python values, exceptions and indexing\<close>

text \<open>
  The tools of \<^verbatim>\<open>src/agent/tools.py\<close> return Python dictionaries with string keys and
  values of several types. A dictionary literal is an association list in the order the
  source writes its keys.
\<close>

datatype pyval =
    PBool bool
  | PStr string
  | PInt int
  | PList "pyval list"
  | PDict "(string \<times> pyval) list"

type_synonym pydict = "(string \<times> pyval) list"

text \<open>
  The exceptions the tools and the worker nodes can raise. \<open>ValueError\<close> carries its
  message (\<^verbatim>\<open>str(e)\<close>); \<open>IndexError\<close> is what list indexing raises out of range.
\<close>

datatype exn =
    ValueError string
  | IndexError

text \<open>A computation either raises (\<open>Inl\<close>) or returns (\<open>Inr\<close>).\<close>

definition bind_exn :: "exn + 'a \<Rightarrow> ('a \<Rightarrow> exn + 'b) \<Rightarrow> exn + 'b" where
  "bind_exn m f = (case m of Inl e \<Rightarrow> Inl e | Inr x \<Rightarrow> f x)"

text \<open>
  \<^verbatim>\<open>try: body  except ValueError as e: handler(str(e))\<close>: only a \<open>ValueError\<close> is
  caught, every other exception leaves the function.
\<close>

definition except_ValueError :: "exn + 'a \<Rightarrow> (string \<Rightarrow> 'a) \<Rightarrow> exn + 'a" where
  "except_ValueError body handler =
     (case body of
        Inl (ValueError e) \<Rightarrow> Inr (handler e)
      | Inl other \<Rightarrow> Inl other
      | Inr r \<Rightarrow> Inr r)"

text \<open>
  Subscripting a Python list with an integer, \<^verbatim>\<open>xs[i]\<close>. From \<open>0\<close> up to the
  length the position is \<open>i\<close> itself; from minus the length up to \<open>-1\<close> it is the
  length plus \<open>i\<close>; everywhere else Python raises \<open>IndexError\<close>.
\<close>

definition py_index :: "'a list \<Rightarrow> int \<Rightarrow> exn + 'a" where
  "py_index xs i =
     (if 0 \<le> i \<and> i < int (length xs) then Inr (xs ! nat i)
      else if - int (length xs) \<le> i \<and> i < 0 then Inr (xs ! nat (int (length xs) + i))
      else Inl IndexError)"

text \<open>A list comprehension whose element expression may raise: the first raise ends it.\<close>

fun map_exn :: "('a \<Rightarrow> exn + 'b) \<Rightarrow> 'a list \<Rightarrow> exn + 'b list" where
  "map_exn f [] = Inr []"
| "map_exn f (x # xs) =
     bind_exn (f x) (\<lambda>y. bind_exn (map_exn f xs) (\<lambda>ys. Inr (y # ys)))"

section \<open>Tables and the table store\<close>

text \<open>
  A table file of the dataset is a JSON object with the keys \<^verbatim>\<open>title\<close>, \<^verbatim>\<open>header\<close>
  and \<^verbatim>\<open>data\<close>. Every header entry and every cell is a pair of a text and a list of
  links; the tools read component \<^verbatim>\<open>[0]\<close>, the text.
\<close>

type_synonym cell = "string \<times> string list"

record table =
  title :: string
  header :: "cell list"
  data :: "cell list list"

text \<open>
  \<^verbatim>\<open>Storage.tables\<close> maps a table UID to the path of its file, and \<^verbatim>\<open>get_table\<close>
  loads that file. The model composes the two: \<open>tables\<close> maps a UID to the parsed
  content of its file.
\<close>

record Storage =
  tables :: "string \<rightharpoonup> table"

definition get_table :: "Storage \<Rightarrow> string \<Rightarrow> exn + table" where
  "get_table self table_uid =
     (case tables self table_uid of
        None \<Rightarrow>
          Inl (ValueError (''Table with uid: '' @ [CHR 0x27] @ table_uid @ [CHR 0x27] @ '' not found''))
      | Some t \<Rightarrow> Inr t)"

section \<open>The table tools\<close>

definition get_table_metadata :: "Storage \<Rightarrow> string \<Rightarrow> exn + pydict" where
  "get_table_metadata storage table_uid =
     except_ValueError
       (bind_exn (get_table storage table_uid) (\<lambda>table.
          Inr [(''ok'', PBool True),
               (''table title'', PStr (title table)),
               (''columns'', PList (map (\<lambda>header. PStr (fst header)) (header table))),
               (''num rows'', PInt (int (length (data table))))]))
       (\<lambda>e. [(''ok'', PBool False),
              (''error'', PStr e),
              (''table_uid'', PStr table_uid)])"

text \<open>
  \<^verbatim>\<open>_get_column_index\<close>: the loop over the enumerated header names returns the first
  index whose name equals \<open>column_name\<close> and raises \<open>ValueError\<close> after the loop.
\<close>

fun column_index_loop :: "(nat \<times> string) list \<Rightarrow> string \<Rightarrow> exn + nat" where
  "column_index_loop [] column_name =
     Inl (ValueError (''Column '' @ [CHR 0x27] @ column_name @ [CHR 0x27] @ '' not found''))"
| "column_index_loop ((i, name) # rest) column_name =
     (if name = column_name then Inr i else column_index_loop rest column_name)"

definition get_column_index :: "table \<Rightarrow> string \<Rightarrow> exn + nat" where
  "get_column_index table column_name =
     column_index_loop (enumerate 0 (map fst (header table))) column_name"

definition get_column :: "Storage \<Rightarrow> string \<Rightarrow> string \<Rightarrow> exn + pydict" where
  "get_column storage table_uid column_name =
     except_ValueError
       (bind_exn (get_table storage table_uid) (\<lambda>table.
        bind_exn (get_column_index table column_name) (\<lambda>column_index.
        bind_exn (map_exn (\<lambda>row. bind_exn (py_index row (int column_index)) (\<lambda>c. Inr (fst c)))
                    (data table)) (\<lambda>values.
          Inr [(''ok'', PBool True),
               (''cells'', PList (map PStr values))]))))
       (\<lambda>e. [(''ok'', PBool False),
              (''error'', PStr e),
              (''table_uid'', PStr table_uid),
              (''column_name'', PStr column_name)])"

definition get_row_by_index :: "Storage \<Rightarrow> string \<Rightarrow> int \<Rightarrow> exn + pydict" where
  "get_row_by_index storage table_uid row_index =
     except_ValueError
       (bind_exn (get_table storage table_uid) (\<lambda>table.
        bind_exn (py_index (data table) row_index) (\<lambda>row.
          Inr [(''ok'', PBool True),
               (''row'', PList (map (\<lambda>cell. PStr (fst cell)) row))])))
       (\<lambda>e. [(''ok'', PBool False),
              (''error'', PStr e),
              (''table_uid'', PStr table_uid),
              (''row_index'', PInt row_index)])"

definition get_cell :: "Storage \<Rightarrow> string \<Rightarrow> int \<Rightarrow> string \<Rightarrow> exn + pydict" where
  "get_cell storage table_uid row_index column_name =
     except_ValueError
       (bind_exn (get_table storage table_uid) (\<lambda>table.
        bind_exn (get_column_index table column_name) (\<lambda>column_index.
        bind_exn (py_index (data table) row_index) (\<lambda>row.
        bind_exn (py_index row (int column_index)) (\<lambda>c.
          Inr [(''ok'', PBool True),
               (''cell'', PStr (fst c))])))))
       (\<lambda>e. [(''ok'', PBool False),
              (''error'', PStr e),
              (''table_uid'', PStr table_uid),
              (''column_name'', PStr column_name)])"

text \<open>
  \<^verbatim>\<open>find_rows_by_value\<close>. \<open>conditions\<close> is the dictionary's item list in insertion
  order. The inner loop looks the column up, leaves the loop (\<^verbatim>\<open>break\<close>) when the cell
  differs from the expected value, and otherwise appends the row index at once: the
  \<^verbatim>\<open>else\<close> belongs to the \<^verbatim>\<open>if\<close>, not to the \<^verbatim>\<open>for\<close>.
\<close>

fun conditions_loop ::
  "table \<Rightarrow> nat \<Rightarrow> cell list \<Rightarrow> (string \<times> string) list \<Rightarrow> nat list \<Rightarrow> exn + nat list" where
  "conditions_loop table row_index row [] row_indices = Inr row_indices"
| "conditions_loop table row_index row ((column_name, v) # rest) row_indices =
     bind_exn (get_column_index table column_name) (\<lambda>column_index.
     bind_exn (py_index row (int column_index)) (\<lambda>c.
       if fst c \<noteq> v then Inr row_indices
       else conditions_loop table row_index row rest (row_indices @ [row_index])))"

fun rows_loop ::
  "table \<Rightarrow> (nat \<times> cell list) list \<Rightarrow> (string \<times> string) list \<Rightarrow> nat list \<Rightarrow> exn + nat list" where
  "rows_loop table [] conditions row_indices = Inr row_indices"
| "rows_loop table ((row_index, row) # rest) conditions row_indices =
     bind_exn (conditions_loop table row_index row conditions row_indices) (\<lambda>row_indices'.
       rows_loop table rest conditions row_indices')"

definition find_rows_by_value ::
  "Storage \<Rightarrow> string \<Rightarrow> (string \<times> string) list \<Rightarrow> exn + pydict" where
  "find_rows_by_value storage table_uid conditions =
     except_ValueError
       (bind_exn (get_table storage table_uid) (\<lambda>table.
        bind_exn (rows_loop table (enumerate 0 (data table)) conditions []) (\<lambda>row_indices.
          Inr [(''ok'', PBool True),
               (''row indices'', PList (map (\<lambda>i. PInt (int i)) row_indices))])))
       (\<lambda>e. [(''ok'', PBool False),
              (''error'', PStr e),
              (''table_uid'', PStr table_uid),
              (''conditions'', PDict (map (\<lambda>(k, v). (k, PStr v)) conditions))])"

section \<open>Conversation state, input validation and the graph\<close>

datatype msg_type = System | Human | AI | Tool

record message =
  mtype :: msg_type
  content :: string
  name :: "string option"

definition SystemMessage :: "string \<Rightarrow> message" where
  "SystemMessage c = \<lparr>mtype = System, content = c, name = None\<rparr>"

definition HumanMessage :: "string \<Rightarrow> string option \<Rightarrow> message" where
  "HumanMessage c n = \<lparr>mtype = Human, content = c, name = n\<rparr>"

definition AIMessage :: "string \<Rightarrow> message" where
  "AIMessage c = \<lparr>mtype = AI, content = c, name = None\<rparr>"

record MessagesState =
  messages :: "message list"

record State = MessagesState +
  "next" :: string

definition validate_input :: "MessagesState \<Rightarrow> State" where
  "validate_input input_state =
     (if messages input_state = []
      then \<lparr>messages = [AIMessage ''Please enter a question''], next = ''end''\<rparr>
      else \<lparr>messages = messages input_state, next = ''router''\<rparr>)"

definition route :: "State \<Rightarrow> string" where
  "route state = next state"

definition START :: string where
  "START = ''__start__''"

definition END :: string where
  "END = ''__end__''"

text \<open>
  The graph as \<^verbatim>\<open>src/agent/graph.py\<close> builds it: four nodes, one fixed edge out of
  \<open>START\<close>, and one conditional edge out of the validator, which applies \<open>route\<close> to the
  state and looks the result up in the path map. The other three nodes name their
  successor in the command they return.
\<close>

definition graph_nodes :: "string list" where
  "graph_nodes = [''validator'', ''router'', ''table_agent'', ''analysis_agent'']"

definition graph_edges :: "(string \<times> string) list" where
  "graph_edges = [(START, ''validator'')]"

definition validator_path_map :: "(string \<times> string) list" where
  "validator_path_map = [(''router'', ''router''), (''end'', END)]"

definition after_validator :: "State \<Rightarrow> string option" where
  "after_validator state = map_of validator_path_map (route state)"

section \<open>Commands, the planner and the two workers\<close>

text \<open>
  A node other than the validator returns a \<^verbatim>\<open>Command\<close>: the name of the node to go
  to and an update of the state, a dictionary holding the key \<^verbatim>\<open>messages\<close> or the key
  \<^verbatim>\<open>next\<close>.
\<close>

record state_update =
  u_messages :: "message list option"
  u_next :: "string option"

record command =
  goto :: string
  update :: state_update

text \<open>
  \<^verbatim>\<open>Router.validate_next\<close>, the field validator that runs when a \<^verbatim>\<open>Router\<close> is
  constructed from the language model's structured output. Its \<^verbatim>\<open>raise\<close> makes the
  construction fail with a validation error, which carries the options and the rejected
  value, the two things the source formats into the message.
\<close>

datatype validation_error = ValidationError "string list" string

definition validate_next :: "string list \<Rightarrow> string \<Rightarrow> validation_error + string" where
  "validate_next options v =
     (if v \<notin> set options then Inl (ValidationError options v) else Inr v)"

text \<open>
  \<^verbatim>\<open>make_planner_node(llm, members)\<close> and the \<^verbatim>\<open>planner_node\<close> it returns. The
  language model is an external service: \<open>llm\<close> maps the messages sent to the value it
  proposes for the field \<^verbatim>\<open>next\<close>, from which the \<^verbatim>\<open>Router\<close> is constructed. The
  text of the system prompt is a parameter.
\<close>

definition planner_node ::
  "string \<Rightarrow> (message list \<Rightarrow> string) \<Rightarrow> string list \<Rightarrow> State
     \<Rightarrow> validation_error + command" where
  "planner_node system_prompt llm members state =
     (let options = [''FINISH''] @ members;
          messages = [SystemMessage system_prompt] @ messages state
      in case validate_next options (llm messages) of
           Inl e \<Rightarrow> Inl e
         | Inr response_next \<Rightarrow>
             (let goto = (if response_next = ''FINISH'' then END else response_next)
              in Inr \<lparr>goto = goto, update = \<lparr>u_messages = None, u_next = Some goto\<rparr>\<rparr>))"

definition answer_supervisor_node ::
  "string \<Rightarrow> (message list \<Rightarrow> string) \<Rightarrow> State \<Rightarrow> validation_error + command" where
  "answer_supervisor_node system_prompt llm =
     planner_node system_prompt llm [''table_agent'', ''analysis_agent'']"

text \<open>
  The two worker nodes. The agent built by \<^verbatim>\<open>create_agent\<close> is external: \<open>agent\<close> maps
  the state it is invoked on to the list \<^verbatim>\<open>result["messages"]\<close>, of which the node
  reads the last element. The texts of the system prompts are parameters.
\<close>

definition table_agent_node ::
  "string \<Rightarrow> (State \<Rightarrow> message list) \<Rightarrow> State \<Rightarrow> exn + command" where
  "table_agent_node TABLE_AGENT_SYSTEM_PROMPT table_agent state =
     (let messages_with_system = [SystemMessage TABLE_AGENT_SYSTEM_PROMPT] @ messages state;
          state_with_system = state\<lparr>messages := messages_with_system\<rparr>;
          result = table_agent state_with_system
      in bind_exn (py_index result (- 1)) (\<lambda>m.
           Inr \<lparr>goto = ''router'',
                update = \<lparr>u_messages = Some [HumanMessage (content m) (Some ''table_agent'')],
                          u_next = None\<rparr>\<rparr>))"

definition analysis_node ::
  "string \<Rightarrow> (State \<Rightarrow> message list) \<Rightarrow> State \<Rightarrow> exn + command" where
  "analysis_node ANALYSIS_AGENT_SYSTEM_PROMPT analysis_agent state =
     (let messages_with_system = [SystemMessage ANALYSIS_AGENT_SYSTEM_PROMPT] @ messages state;
          state_with_system = state\<lparr>messages := messages_with_system\<rparr>;
          result = analysis_agent state_with_system
      in bind_exn (py_index result (- 1)) (\<lambda>m.
           Inr \<lparr>goto = ''router'',
                update = \<lparr>u_messages = Some [HumanMessage (content m) (Some ''analysis_agent'')],
                          u_next = None\<rparr>\<rparr>))"

section \<open>What the documentation of the conditional row search asks for\<close>

text \<open>
  The docstring of \<^verbatim>\<open>find_rows_by_value\<close> and the specification describe the result
  as the indices of the rows that satisfy every condition. The two definitions below
  follow those words, not the loop; they are what the loop is compared with.
  \<open>condition_holds\<close>: the column of the condition is in the header, the row has a cell
  there, and the text of that cell equals the expected value.
\<close>

definition condition_holds :: "table \<Rightarrow> cell list \<Rightarrow> string \<times> string \<Rightarrow> bool" where
  "condition_holds table row cond =
     (case get_column_index table (fst cond) of
        Inl e \<Rightarrow> False
      | Inr column_index \<Rightarrow>
          column_index < length row \<and> fst (row ! column_index) = snd cond)"

definition matching_rows :: "table \<Rightarrow> (string \<times> string) list \<Rightarrow> nat list" where
  "matching_rows table conditions =
     filter (\<lambda>i. list_all (condition_holds table (data table ! i)) conditions)
       [0 ..< length (data table)]"

section \<open>Example data\<close>

text \<open>The table of the specification's scenario, stored under the UID \<open>T1\<close>.\<close>

definition T1 :: table where
  "T1 = \<lparr>title = ''People'',
         header = [(''Name'', []), (''City'', [])],
         data = [[(''Alice'', []), (''NYC'', [])], [(''Bob'', []), (''LA'', [])]]\<rparr>"

definition store1 :: Storage where
  "store1 = \<lparr>tables = [''T1'' \<mapsto> T1]\<rparr>"



section \<open>Basic facts\<close>

lemma bind_exn_simps [simp]:
  "bind_exn (Inl e) f = Inl e"
  "bind_exn (Inr x) f = f x"
  by (simp_all add: bind_exn_def)

lemma except_ValueError_simps [simp]:
  "except_ValueError (Inl (ValueError m)) h = Inr (h m)"
  "except_ValueError (Inl IndexError) h = Inl IndexError"
  "except_ValueError (Inr r) h = Inr r"
  by (simp_all add: except_ValueError_def)

lemma get_table_None:
  "tables storage table_uid = None \<Longrightarrow>
   get_table storage table_uid =
     Inl (ValueError (''Table with uid: '' @ [CHR 0x27] @ table_uid @ [CHR 0x27] @ '' not found''))"
  by (simp add: get_table_def)

lemma get_table_Some:
  "tables storage table_uid = Some t \<Longrightarrow> get_table storage table_uid = Inr t"
  by (simp add: get_table_def)

lemma py_index_nat:
  "i < length xs \<Longrightarrow> py_index xs (int i) = Inr (xs ! i)"
  by (simp add: py_index_def)

lemma py_index_last:
  "xs \<noteq> [] \<Longrightarrow> py_index xs (- 1) = Inr (last xs)"
proof -
  assume ne: "xs \<noteq> []"
  then have pos: "1 \<le> length xs" by (cases xs) simp_all
  then have "nat (int (length xs) - 1) = length xs - 1" by simp
  with ne pos show ?thesis
    by (simp add: py_index_def last_conv_nth)
qed

lemma py_index_empty:
  "py_index [] i = Inl IndexError"
  by (simp add: py_index_def)


section \<open>The column lookup\<close>

lemma column_index_loop_found:
  "column_name \<in> set names \<Longrightarrow>
   \<exists>i. column_index_loop (enumerate n names) column_name = Inr i \<and> n \<le> i
       \<and> i < n + length names \<and> names ! (i - n) = column_name"
proof (induction names arbitrary: n)
  case Nil
  then show ?case by simp
next
  case (Cons a names)
  show ?case
  proof (cases "a = column_name")
    case True
    then show ?thesis by simp
  next
    case False
    with Cons.prems have "column_name \<in> set names" by simp
    from Cons.IH[OF this, of "Suc n"] obtain i where
      i: "column_index_loop (enumerate (Suc n) names) column_name = Inr i" "Suc n \<le> i"
         "i < Suc n + length names" "names ! (i - Suc n) = column_name"
      by blast
    from i(2) have "i - n = Suc (i - Suc n)" by arith
    then have "(a # names) ! (i - n) = names ! (i - Suc n)" by simp
    with i False show ?thesis by auto
  qed
qed

lemma column_index_loop_missing:
  "column_name \<notin> set names \<Longrightarrow>
   column_index_loop (enumerate n names) column_name =
     Inl (ValueError (''Column '' @ [CHR 0x27] @ column_name @ [CHR 0x27] @ '' not found''))"
  by (induction names arbitrary: n) auto

lemma get_column_index_found:
  assumes "column_name \<in> fst ` set (header t)"
  shows "\<exists>i. get_column_index t column_name = Inr i \<and> i < length (header t)
            \<and> fst (header t ! i) = column_name"
proof -
  from assms have "column_name \<in> set (map fst (header t))" by simp
  from column_index_loop_found[OF this, of 0] show ?thesis
    by (auto simp: get_column_index_def)
qed

lemma get_column_index_missing:
  "column_name \<notin> fst ` set (header t) \<Longrightarrow>
   get_column_index t column_name =
     Inl (ValueError (''Column '' @ [CHR 0x27] @ column_name @ [CHR 0x27] @ '' not found''))"
  by (simp add: get_column_index_def column_index_loop_missing)

section \<open>The two loops of the conditional row search\<close>

text \<open>
  When every condition names a column of the header and the row has a cell in every
  column, the inner loop appends the row index once for each condition of the longest
  prefix of the conditions that hold in the row.
\<close>

lemma conditions_loop_appends:
  assumes cols: "\<And>c. c \<in> set conditions \<Longrightarrow> fst c \<in> fst ` set (header t)"
      and wide: "length (header t) \<le> length row"
  shows "conditions_loop t row_index row conditions acc =
           Inr (acc @ replicate (length (takeWhile (condition_holds t row) conditions)) row_index)"
  using cols
proof (induction conditions arbitrary: acc)
  case Nil
  then show ?case by simp
next
  case (Cons c conditions)
  obtain column_name v where c: "c = (column_name, v)" by (cases c)
  from Cons.prems[of c] c have "column_name \<in> fst ` set (header t)" by simp
  from get_column_index_found[OF this] obtain i where
    i: "get_column_index t column_name = Inr i" "i < length (header t)" by blast
  with wide have il: "i < length row" by simp
  have holds: "condition_holds t row c = (fst (row ! i) = v)"
    using i il by (simp add: c condition_holds_def)
  show ?case
  proof (cases "fst (row ! i) = v")
    case True
    have "conditions_loop t row_index row (c # conditions) acc =
            conditions_loop t row_index row conditions (acc @ [row_index])"
      using i il True by (simp add: c py_index_nat)
    also have "\<dots> = Inr ((acc @ [row_index]) @
        replicate (length (takeWhile (condition_holds t row) conditions)) row_index)"
      by (rule Cons.IH) (simp add: Cons.prems)
    finally show ?thesis
      using True holds by (simp add: replicate_app_Cons_same)
  next
    case False
    have "conditions_loop t row_index row (c # conditions) acc = Inr acc"
      using i il False by (simp add: c py_index_nat)
    then show ?thesis
      using False holds by simp
  qed
qed

lemma rows_loop_appends:
  assumes cols: "\<And>c. c \<in> set conditions \<Longrightarrow> fst c \<in> fst ` set (header t)"
      and wide: "\<And>row. row \<in> set rows \<Longrightarrow> length (header t) \<le> length row"
  shows "rows_loop t (enumerate n rows) conditions acc =
           Inr (acc @ concat (map (\<lambda>(i, row).
                  replicate (length (takeWhile (condition_holds t row) conditions)) i)
                (enumerate n rows)))"
  using wide
proof (induction rows arbitrary: n acc)
  case Nil
  then show ?case by simp
next
  case (Cons row rows)
  have "length (header t) \<le> length row" using Cons.prems by simp
  from conditions_loop_appends[OF cols this]
  have step: "conditions_loop t n row conditions acc =
      Inr (acc @ replicate (length (takeWhile (condition_holds t row) conditions)) n)"
    by blast
  show ?case
    using Cons.IH[of "Suc n"] Cons.prems by (simp add: step)
qed

lemma rows_loop_no_conditions:
  "rows_loop t rows [] acc = Inr acc"
  by (induction rows arbitrary: acc) auto

lemma find_rows_by_value_empty_conditions:
  "tables storage table_uid = Some t \<Longrightarrow>
   find_rows_by_value storage table_uid [] =
     Inr [(''ok'', PBool True), (''row indices'', PList [])]"
  by (simp add: find_rows_by_value_def get_table_Some rows_loop_no_conditions)

text \<open>
  With a single condition the loop does what the documentation asks for: the append in
  the \<^verbatim>\<open>else\<close> of the \<^verbatim>\<open>if\<close> then runs at most once for a row.
\<close>

lemma one_condition_filter:
  "concat (map (\<lambda>(i, row). replicate (length (takeWhile (Q row) [c])) i) (enumerate n rows)) =
     filter (\<lambda>i. Q (rows ! (i - n)) c) [n ..< n + length rows]"
proof (induction rows arbitrary: n)
  case Nil
  then show ?case by simp
next
  case (Cons r rows)
  have tail: "filter (\<lambda>i. Q ((r # rows) ! (i - n)) c) [Suc n ..< Suc n + length rows] =
              filter (\<lambda>i. Q (rows ! (i - Suc n)) c) [Suc n ..< Suc n + length rows]"
  proof (rule filter_cong [OF refl])
    fix i assume "i \<in> set [Suc n ..< Suc n + length rows]"
    then have "i - n = Suc (i - Suc n)" by auto
    then show "Q ((r # rows) ! (i - n)) c = Q (rows ! (i - Suc n)) c" by simp
  qed
  have "[n ..< n + length (r # rows)] = n # [Suc n ..< Suc n + length rows]"
    by (simp add: upt_rec)
  then show ?case
    using Cons.IH [of "Suc n"] tail by simp
qed

lemma find_rows_by_value_single_condition:
  assumes "tables storage table_uid = Some t"
      and "column_name \<in> fst ` set (header t)"
      and "list_all (\<lambda>row. length (header t) \<le> length row) (data t)"
  shows "find_rows_by_value storage table_uid [(column_name, v)] =
           Inr [(''ok'', PBool True),
                (''row indices'', PList (map (\<lambda>i. PInt (int i))
                   (matching_rows t [(column_name, v)])))]"
proof -
  have "rows_loop t (enumerate 0 (data t)) [(column_name, v)] [] =
          Inr ([] @ concat (map (\<lambda>(i, row).
                  replicate (length (takeWhile (condition_holds t row) [(column_name, v)])) i)
                (enumerate 0 (data t))))"
  proof (rule rows_loop_appends)
    fix c assume "c \<in> set [(column_name, v)]"
    with assms(2) show "fst c \<in> fst ` set (header t)" by simp
  next
    fix row assume "row \<in> set (data t)"
    with assms(3) show "length (header t) \<le> length row" by (simp add: list_all_iff)
  qed
  moreover have "matching_rows t [(column_name, v)] =
      filter (\<lambda>i. condition_holds t (data t ! (i - 0)) (column_name, v))
        [0 ..< 0 + length (data t)]"
    by (simp add: matching_rows_def)
  ultimately have "rows_loop t (enumerate 0 (data t)) [(column_name, v)] [] =
          Inr (matching_rows t [(column_name, v)])"
    by (simp only: one_condition_filter [of "condition_holds t" "(column_name, v)" 0 "data t"]
          append_Nil)
  with assms(1) show ?thesis
    by (simp add: find_rows_by_value_def get_table_Some)
qed

section \<open>Evaluating the example data\<close>

lemma store1_T1: "tables store1 ''T1'' = Some T1"
  by (simp add: store1_def)


lemma T1_column_index:
  "get_column_index T1 ''Name'' = Inr 0"
  "get_column_index T1 ''City'' = Inr 1"
  by (simp_all add: get_column_index_def T1_def)


section \<open>Claims about the table tools\<close>

text \<open>
  C1. The claim: for conditions whose columns are all in the header, the row indices
  returned are exactly the indices of the rows in which every condition holds; one row
  satisfying them gives a one-element list, no such row gives the empty list. On the table
  \<open>T1\<close> of the specification's scenario the loop does otherwise: with the conditions
  Name = Alice and City = NYC, which only row 0 satisfies, it returns the index 0 twice,
  and with Name = Alice and City = LA, which no row satisfies, it returns the index 0.
\<close>

theorem find_rows_by_value_not_all_conditions:
  "find_rows_by_value store1 ''T1'' [(''Name'', ''Alice''), (''City'', ''NYC'')] =
     Inr [(''ok'', PBool True), (''row indices'', PList [PInt 0, PInt 0])]
   \<and> matching_rows T1 [(''Name'', ''Alice''), (''City'', ''NYC'')] = [0]
   \<and> find_rows_by_value store1 ''T1'' [(''Name'', ''Alice''), (''City'', ''LA'')] =
     Inr [(''ok'', PBool True), (''row indices'', PList [PInt 0])]
   \<and> matching_rows T1 [(''Name'', ''Alice''), (''City'', ''LA'')] = []"
proof -
  have code1: "find_rows_by_value store1 ''T1'' [(''Name'', ''Alice''), (''City'', ''NYC'')] =
     Inr [(''ok'', PBool True), (''row indices'', PList [PInt 0, PInt 0])]"
    by (simp add: find_rows_by_value_def get_table_Some [OF store1_T1])
       (simp add: T1_def get_column_index_def py_index_def)
  have code2: "find_rows_by_value store1 ''T1'' [(''Name'', ''Alice''), (''City'', ''LA'')] =
     Inr [(''ok'', PBool True), (''row indices'', PList [PInt 0])]"
    by (simp add: find_rows_by_value_def get_table_Some [OF store1_T1])
       (simp add: T1_def get_column_index_def py_index_def)
  have len: "[0 ..< length (data T1)] = [0, Suc 0]"
    by (simp add: T1_def upt_rec)
  have spec1: "matching_rows T1 [(''Name'', ''Alice''), (''City'', ''NYC'')] = [0]"
    by (simp add: matching_rows_def len condition_holds_def T1_column_index)
       (simp add: T1_def)
  have spec2: "matching_rows T1 [(''Name'', ''Alice''), (''City'', ''LA'')] = []"
    by (simp add: matching_rows_def len condition_holds_def T1_column_index)
       (simp add: T1_def)
  from code1 spec1 code2 spec2 show ?thesis by simp
qed

text \<open>
  C2. The claim: with an empty conditions mapping the result lists the index of every row.
  In the code the only append is inside the loop over the conditions, so with no
  condition nothing is appended (\<open>find_rows_by_value_empty_conditions\<close>, for every
  stored table). On the table \<open>T1\<close>, whose two rows both satisfy the empty set of
  conditions, the list returned is empty.
\<close>

theorem find_rows_by_value_no_conditions_returns_nothing:
  "find_rows_by_value store1 ''T1'' [] =
     Inr [(''ok'', PBool True), (''row indices'', PList [])]
   \<and> length (data T1) = 2
   \<and> matching_rows T1 [] = [0, 1]"
proof -
  have "matching_rows T1 [] = [0, 1]"
    by (simp add: matching_rows_def T1_def upt_rec)
  moreover have "length (data T1) = 2"
    by (simp add: T1_def)
  ultimately show ?thesis
    using find_rows_by_value_empty_conditions [OF store1_T1] by simp
qed




text \<open>
  C4. For a table UID that is not in the store, each of the five table tools returns (it
  does not raise) a dictionary with \<open>ok\<close> false, the error message of \<open>get_table\<close>
  saying that the table with this UID was not found, and the requested UID under the key
  \<open>table_uid\<close>, followed by the tool's other echoed parameters.
\<close>

theorem unknown_table_uid_is_a_failure_result:
  "tables storage table_uid = None \<Longrightarrow>
     get_table_metadata storage table_uid =
       Inr [(''ok'', PBool False),
            (''error'', PStr (''Table with uid: '' @ [CHR 0x27] @ table_uid @ [CHR 0x27] @ '' not found'')),
            (''table_uid'', PStr table_uid)]
   \<and> get_column storage table_uid column_name =
       Inr [(''ok'', PBool False),
            (''error'', PStr (''Table with uid: '' @ [CHR 0x27] @ table_uid @ [CHR 0x27] @ '' not found'')),
            (''table_uid'', PStr table_uid),
            (''column_name'', PStr column_name)]
   \<and> get_row_by_index storage table_uid row_index =
       Inr [(''ok'', PBool False),
            (''error'', PStr (''Table with uid: '' @ [CHR 0x27] @ table_uid @ [CHR 0x27] @ '' not found'')),
            (''table_uid'', PStr table_uid),
            (''row_index'', PInt row_index)]
   \<and> get_cell storage table_uid row_index column_name =
       Inr [(''ok'', PBool False),
            (''error'', PStr (''Table with uid: '' @ [CHR 0x27] @ table_uid @ [CHR 0x27] @ '' not found'')),
            (''table_uid'', PStr table_uid),
            (''column_name'', PStr column_name)]
   \<and> find_rows_by_value storage table_uid conditions =
       Inr [(''ok'', PBool False),
            (''error'', PStr (''Table with uid: '' @ [CHR 0x27] @ table_uid @ [CHR 0x27] @ '' not found'')),
            (''table_uid'', PStr table_uid),
            (''conditions'', PDict (map (\<lambda>(k, v). (k, PStr v)) conditions))]"
  by (simp add: get_table_metadata_def get_column_def get_row_by_index_def get_cell_def
        find_rows_by_value_def get_table_None)

theorem unknown_table_uid_is_a_failure_result_witness:
  "tables store1 ''T9'' = None
   \<and> get_table_metadata store1 ''T9'' =
       Inr [(''ok'', PBool False),
            (''error'', PStr ''Table with uid: 'T9' not found''),
            (''table_uid'', PStr ''T9'')]
   \<and> get_column store1 ''T9'' ''City'' =
       Inr [(''ok'', PBool False),
            (''error'', PStr ''Table with uid: 'T9' not found''),
            (''table_uid'', PStr ''T9''),
            (''column_name'', PStr ''City'')]
   \<and> get_row_by_index store1 ''T9'' 0 =
       Inr [(''ok'', PBool False),
            (''error'', PStr ''Table with uid: 'T9' not found''),
            (''table_uid'', PStr ''T9''),
            (''row_index'', PInt 0)]
   \<and> get_cell store1 ''T9'' 0 ''City'' =
       Inr [(''ok'', PBool False),
            (''error'', PStr ''Table with uid: 'T9' not found''),
            (''table_uid'', PStr ''T9''),
            (''column_name'', PStr ''City'')]
   \<and> find_rows_by_value store1 ''T9'' [(''City'', ''LA'')] =
       Inr [(''ok'', PBool False),
            (''error'', PStr ''Table with uid: 'T9' not found''),
            (''table_uid'', PStr ''T9''),
            (''conditions'', PDict [(''City'', PStr ''LA'')])]"
proof -
  have h: "tables store1 ''T9'' = None" by (simp add: store1_def)
  from unknown_table_uid_is_a_failure_result
         [OF h, of "''City''" 0 "[(''City'', ''LA'')]"] h
  show ?thesis by simp
qed

text \<open>
  C5. For a stored table with \<open>n\<close> rows and a row index of at least \<open>n\<close>,
  \<open>get_row_by_index\<close> does not return a dictionary: the \<open>IndexError\<close> of the list
  indexing leaves the function, because nothing checks the bound and the handler
  catches \<open>ValueError\<close> only.
\<close>

theorem get_row_by_index_out_of_range_raises:
  "tables storage table_uid = Some t \<Longrightarrow> int (length (data t)) \<le> row_index \<Longrightarrow>
   get_row_by_index storage table_uid row_index = Inl IndexError"
  by (simp add: get_row_by_index_def get_table_Some py_index_def)

theorem get_row_by_index_out_of_range_raises_witness:
  "tables store1 ''T1'' = Some T1 \<and> int (length (data T1)) \<le> 2
   \<and> get_row_by_index store1 ''T1'' 2 = Inl IndexError"
proof -
  have h: "int (length (data T1)) \<le> 2" by (simp add: T1_def)
  from get_row_by_index_out_of_range_raises [OF store1_T1 h] store1_T1 h
  show ?thesis by simp
qed

text \<open>
  C10. For a stored table with \<open>n\<close> rows and a row index between \<open>-n\<close> and \<open>-1\<close>
  (so \<open>n\<close> is at least 1), \<open>get_row_by_index\<close> returns a success result holding the
  texts of the row at position \<open>n + row_index\<close>.
\<close>

theorem get_row_by_index_negative_counts_from_end:
  "tables storage table_uid = Some t \<Longrightarrow>
   - int (length (data t)) \<le> row_index \<Longrightarrow> row_index \<le> - 1 \<Longrightarrow>
   get_row_by_index storage table_uid row_index =
     Inr [(''ok'', PBool True),
          (''row'', PList (map (\<lambda>cell. PStr (fst cell))
                      (data t ! nat (int (length (data t)) + row_index))))]"
  by (simp add: get_row_by_index_def get_table_Some py_index_def)

theorem get_row_by_index_negative_counts_from_end_witness:
  "tables store1 ''T1'' = Some T1 \<and> - int (length (data T1)) \<le> - 1 \<and> (- 1 :: int) \<le> - 1
   \<and> get_row_by_index store1 ''T1'' (- 1) =
       Inr [(''ok'', PBool True), (''row'', PList [PStr ''Bob'', PStr ''LA''])]"
proof -
  have h1: "- int (length (data T1)) \<le> - 1" by (simp add: T1_def)
  have h2: "(- 1 :: int) \<le> - 1" by simp
  from get_row_by_index_negative_counts_from_end [OF store1_T1 h1 h2]
  have "get_row_by_index store1 ''T1'' (- 1) =
       Inr [(''ok'', PBool True), (''row'', PList [PStr ''Bob'', PStr ''LA''])]"
    by (simp add: T1_def)
  with store1_T1 h1 h2 show ?thesis by simp
qed

text \<open>
  C9. There are a stored table and a conditions mapping with two entries for which
  \<open>find_rows_by_value\<close> returns the same row index twice. In general, when every
  condition names a column of the header and every row has a cell in every column, the
  list returned holds, row by row, the row index once for each condition of the longest
  prefix of the conditions that hold in the row: \<open>k\<close> times for a row satisfying all
  \<open>k\<close> conditions, and at least once for a row that satisfies the first condition
  and fails a later one.
\<close>

theorem find_rows_by_value_repeats_row_index:
  "(\<exists>storage table_uid conditions row_indices.
      2 \<le> length conditions \<and> distinct (map fst conditions)
      \<and> find_rows_by_value storage table_uid conditions =
          Inr [(''ok'', PBool True),
               (''row indices'', PList (map (\<lambda>i. PInt (int i)) row_indices))]
      \<and> \<not> distinct row_indices)
   \<and> (\<forall>storage table_uid t conditions.
        tables storage table_uid = Some t \<longrightarrow>
        list_all (\<lambda>c. fst c \<in> fst ` set (header t)) conditions \<longrightarrow>
        list_all (\<lambda>row. length (header t) \<le> length row) (data t) \<longrightarrow>
        find_rows_by_value storage table_uid conditions =
          Inr [(''ok'', PBool True),
               (''row indices'', PList (map (\<lambda>i. PInt (int i))
                  (concat (map (\<lambda>(i, row).
                     replicate (length (takeWhile (condition_holds t row) conditions)) i)
                   (enumerate 0 (data t))))))])"
proof (intro conjI allI impI)
  have "find_rows_by_value store1 ''T1'' [(''Name'', ''Alice''), (''City'', ''NYC'')] =
     Inr [(''ok'', PBool True), (''row indices'', PList (map (\<lambda>i. PInt (int i)) [0, 0]))]"
    by (simp add: find_rows_by_value_def get_table_Some [OF store1_T1])
       (simp add: T1_def get_column_index_def py_index_def)
  moreover have "\<not> distinct [0 :: nat, 0]" by simp
  moreover have "2 \<le> length [(''Name'', ''Alice''), (''City'', ''NYC'')]" by simp
  moreover have "distinct (map fst [(''Name'', ''Alice''), (''City'', ''NYC'')])" by simp
  ultimately show "\<exists>storage table_uid conditions row_indices.
      2 \<le> length conditions \<and> distinct (map fst conditions)
      \<and> find_rows_by_value storage table_uid conditions =
          Inr [(''ok'', PBool True),
               (''row indices'', PList (map (\<lambda>i. PInt (int i)) row_indices))]
      \<and> \<not> distinct row_indices"
    by blast
next
  fix storage :: Storage and table_uid :: string and t :: table
    and conditions :: "(string \<times> string) list"
  assume t: "tables storage table_uid = Some t"
     and cols: "list_all (\<lambda>c. fst c \<in> fst ` set (header t)) conditions"
     and wide: "list_all (\<lambda>row. length (header t) \<le> length row) (data t)"
  have "rows_loop t (enumerate 0 (data t)) conditions [] =
          Inr ([] @ concat (map (\<lambda>(i, row).
                  replicate (length (takeWhile (condition_holds t row) conditions)) i)
                (enumerate 0 (data t))))"
  proof (rule rows_loop_appends)
    fix c assume "c \<in> set conditions"
    with cols show "fst c \<in> fst ` set (header t)" by (simp add: list_all_iff)
  next
    fix row assume "row \<in> set (data t)"
    with wide show "length (header t) \<le> length row" by (simp add: list_all_iff)
  qed
  with t show "find_rows_by_value storage table_uid conditions =
          Inr [(''ok'', PBool True),
               (''row indices'', PList (map (\<lambda>i. PInt (int i))
                  (concat (map (\<lambda>(i, row).
                     replicate (length (takeWhile (condition_holds t row) conditions)) i)
                   (enumerate 0 (data t))))))]"
    by (simp add: find_rows_by_value_def get_table_Some)
qed

theorem find_rows_by_value_repeats_row_index_witness:
  "tables store1 ''T1'' = Some T1
   \<and> list_all (\<lambda>c. fst c \<in> fst ` set (header T1)) [(''Name'', ''Bob''), (''City'', ''LA'')]
   \<and> list_all (\<lambda>row. length (header T1) \<le> length row) (data T1)
   \<and> find_rows_by_value store1 ''T1'' [(''Name'', ''Bob''), (''City'', ''LA'')] =
       Inr [(''ok'', PBool True), (''row indices'', PList [PInt 1, PInt 1])]"
proof -
  have h2: "list_all (\<lambda>c. fst c \<in> fst ` set (header T1)) [(''Name'', ''Bob''), (''City'', ''LA'')]"
    by (simp add: T1_def)
  have h3: "list_all (\<lambda>row. length (header T1) \<le> length row) (data T1)"
    by (simp add: T1_def)
  have rows: "enumerate 0 (data T1) =
      [(0, [(''Alice'', []), (''NYC'', [])]), (1, [(''Bob'', []), (''LA'', [])])]"
    by (simp add: T1_def)
  have holds:
    "condition_holds T1 [(''Alice'', []), (''NYC'', [])] (''Name'', ''Bob'') = False"
    "condition_holds T1 [(''Bob'', []), (''LA'', [])] (''Name'', ''Bob'') = True"
    "condition_holds T1 [(''Bob'', []), (''LA'', [])] (''City'', ''LA'') = True"
    by (simp_all add: condition_holds_def T1_column_index)
  from find_rows_by_value_repeats_row_index
  have "tables store1 ''T1'' = Some T1 \<longrightarrow>
        list_all (\<lambda>c. fst c \<in> fst ` set (header T1)) [(''Name'', ''Bob''), (''City'', ''LA'')] \<longrightarrow>
        list_all (\<lambda>row. length (header T1) \<le> length row) (data T1) \<longrightarrow>
        find_rows_by_value store1 ''T1'' [(''Name'', ''Bob''), (''City'', ''LA'')] =
          Inr [(''ok'', PBool True),
               (''row indices'', PList (map (\<lambda>i. PInt (int i))
                  (concat (map (\<lambda>(i, row).
                     replicate (length (takeWhile (condition_holds T1 row)
                        [(''Name'', ''Bob''), (''City'', ''LA'')])) i)
                   (enumerate 0 (data T1))))))]"
    by blast
  with store1_T1 h2 h3
  have "find_rows_by_value store1 ''T1'' [(''Name'', ''Bob''), (''City'', ''LA'')] =
       Inr [(''ok'', PBool True), (''row indices'', PList [PInt 1, PInt 1])]"
    by (simp add: rows holds)
  with store1_T1 h2 h3 show ?thesis by simp
qed

section \<open>Claims about the validator, the router and the workers\<close>

text \<open>
  C6. On an empty message list the validator returns the single message
  \<open>Please enter a question\<close> with \<open>next = end\<close>, and the conditional edge out of the
  validator then leads to the end of the graph, which is none of the graph's nodes, so
  neither the router nor a worker runs. On a non-empty message list it returns the same
  messages with \<open>next = router\<close>, and the edge leads to the router.
\<close>

theorem validate_input_empty_or_router:
  "validate_input \<lparr>messages = []\<rparr> =
     \<lparr>messages = [AIMessage ''Please enter a question''], next = ''end''\<rparr>
   \<and> after_validator (validate_input \<lparr>messages = []\<rparr>) = Some END
   \<and> END \<notin> set graph_nodes
   \<and> (msgs \<noteq> [] \<longrightarrow>
        validate_input \<lparr>messages = msgs\<rparr> = \<lparr>messages = msgs, next = ''router''\<rparr>
        \<and> after_validator (validate_input \<lparr>messages = msgs\<rparr>) = Some ''router'')"
  by (simp add: validate_input_def after_validator_def route_def validator_path_map_def
        END_def graph_nodes_def)

theorem validate_input_empty_or_router_witness:
  "[HumanMessage ''Who lives in LA?'' None] \<noteq> []
   \<and> validate_input \<lparr>messages = [HumanMessage ''Who lives in LA?'' None]\<rparr> =
       \<lparr>messages = [HumanMessage ''Who lives in LA?'' None], next = ''router''\<rparr>
   \<and> after_validator (validate_input \<lparr>messages = [HumanMessage ''Who lives in LA?'' None]\<rparr>)
       = Some ''router''"
proof -
  have h: "[HumanMessage ''Who lives in LA?'' None] \<noteq> []" by simp
  with validate_input_empty_or_router [of "[HumanMessage ''Who lives in LA?'' None]"]
  show ?thesis by blast
qed

lemma member_options:
  "v \<in> set ([c] @ [a, b]) \<longleftrightarrow> v \<in> {a, b, c}"
  "v \<in> set [c, a, b] \<longleftrightarrow> v \<in> {a, b, c}"
  by auto

lemma validate_next_rejected:
  "v \<notin> set options \<Longrightarrow> validate_next options v = Inl (ValidationError options v)"
  by (simp add: validate_next_def)

lemma goto_in_targets:
  "v \<in> {a, b, c} \<Longrightarrow> (if v = c then e else v) \<in> {a, b, e}"
  by auto

lemma planner_node_rejected:
  "v = llm ([SystemMessage system_prompt] @ messages state) \<Longrightarrow>
   v \<notin> set ([''FINISH''] @ members) \<Longrightarrow>
   planner_node system_prompt llm members state =
     Inl (ValidationError ([''FINISH''] @ members) v)"
  by (simp add: planner_node_def validate_next_def Let_def)

lemma planner_node_allowed:
  "v = llm ([SystemMessage system_prompt] @ messages state) \<Longrightarrow>
   v \<in> set ([''FINISH''] @ members) \<Longrightarrow>
   planner_node system_prompt llm members state =
     Inr \<lparr>goto = (if v = ''FINISH'' then END else v),
          update = \<lparr>u_messages = None, u_next = Some (if v = ''FINISH'' then END else v)\<rparr>\<rparr>"
  by (simp add: planner_node_def validate_next_def Let_def)

text \<open>
  C7. Let \<open>v\<close> be the value the language model proposes for \<open>next\<close>. If \<open>v\<close> is
  none of \<open>table_agent\<close>, \<open>analysis_agent\<close> and \<open>FINISH\<close>, the validator of the
  \<open>Router\<close> model raises and the planner node raises the same validation error instead of
  returning a command. Otherwise the planner node returns a command whose target is
  \<open>table_agent\<close>, \<open>analysis_agent\<close> or the end of the graph, and which records that
  target as \<open>next\<close>.
\<close>

theorem planner_rejects_unknown_next:
  assumes "v = llm ([SystemMessage system_prompt] @ messages state)"
  shows "(v \<notin> {''table_agent'', ''analysis_agent'', ''FINISH''} \<longrightarrow>
            validate_next [''FINISH'', ''table_agent'', ''analysis_agent''] v =
              Inl (ValidationError [''FINISH'', ''table_agent'', ''analysis_agent''] v)
            \<and> answer_supervisor_node system_prompt llm state =
              Inl (ValidationError [''FINISH'', ''table_agent'', ''analysis_agent''] v))
       \<and> (v \<in> {''table_agent'', ''analysis_agent'', ''FINISH''} \<longrightarrow>
            (\<exists>cmd. answer_supervisor_node system_prompt llm state = Inr cmd
               \<and> goto cmd = (if v = ''FINISH'' then END else v)
               \<and> goto cmd \<in> {''table_agent'', ''analysis_agent'', END}
               \<and> update cmd = \<lparr>u_messages = None, u_next = Some (goto cmd)\<rparr>))"
proof (intro conjI impI)
  assume out: "v \<notin> {''table_agent'', ''analysis_agent'', ''FINISH''}"
  then have "v \<notin> set ([''FINISH''] @ [''table_agent'', ''analysis_agent''])"
    by (simp add: member_options)
  then have raised: "planner_node system_prompt llm [''table_agent'', ''analysis_agent''] state =
      Inl (ValidationError ([''FINISH''] @ [''table_agent'', ''analysis_agent'']) v)"
    using assms by (rule planner_node_rejected [rotated])
  from out have "v \<notin> set [''FINISH'', ''table_agent'', ''analysis_agent'']"
    by (simp add: member_options)
  then show "validate_next [''FINISH'', ''table_agent'', ''analysis_agent''] v =
      Inl (ValidationError [''FINISH'', ''table_agent'', ''analysis_agent''] v)"
    by (rule validate_next_rejected)
  from raised show "answer_supervisor_node system_prompt llm state =
      Inl (ValidationError [''FINISH'', ''table_agent'', ''analysis_agent''] v)"
    by (simp only: answer_supervisor_node_def append.simps)
next
  assume allowed: "v \<in> {''table_agent'', ''analysis_agent'', ''FINISH''}"
  then have "v \<in> set ([''FINISH''] @ [''table_agent'', ''analysis_agent''])"
    by (simp only: member_options)
  then have "planner_node system_prompt llm [''table_agent'', ''analysis_agent''] state =
      Inr \<lparr>goto = (if v = ''FINISH'' then END else v),
           update = \<lparr>u_messages = None, u_next = Some (if v = ''FINISH'' then END else v)\<rparr>\<rparr>"
    using assms by (rule planner_node_allowed [rotated])
  then have node: "answer_supervisor_node system_prompt llm state =
      Inr \<lparr>goto = (if v = ''FINISH'' then END else v),
           update = \<lparr>u_messages = None, u_next = Some (if v = ''FINISH'' then END else v)\<rparr>\<rparr>"
    by (simp only: answer_supervisor_node_def)
  from allowed have target:
    "(if v = ''FINISH'' then END else v) \<in> {''table_agent'', ''analysis_agent'', END}"
    by (rule goto_in_targets)
  show "\<exists>cmd. answer_supervisor_node system_prompt llm state = Inr cmd
               \<and> goto cmd = (if v = ''FINISH'' then END else v)
               \<and> goto cmd \<in> {''table_agent'', ''analysis_agent'', END}
               \<and> update cmd = \<lparr>u_messages = None, u_next = Some (goto cmd)\<rparr>"
  proof (intro exI conjI)
    show "answer_supervisor_node system_prompt llm state =
      Inr \<lparr>goto = (if v = ''FINISH'' then END else v),
           update = \<lparr>u_messages = None, u_next = Some (if v = ''FINISH'' then END else v)\<rparr>\<rparr>"
      by (rule node)
  qed (simp_all only: command.simps target)
qed

theorem planner_rejects_unknown_next_witness:
  "''validator'' \<notin> {''table_agent'', ''analysis_agent'', ''FINISH''}
   \<and> answer_supervisor_node ''route'' (\<lambda>ms. ''validator'') \<lparr>messages = [], next = ''router''\<rparr> =
       Inl (ValidationError [''FINISH'', ''table_agent'', ''analysis_agent''] ''validator'')
   \<and> ''FINISH'' \<in> {''table_agent'', ''analysis_agent'', ''FINISH''}
   \<and> (\<exists>cmd. answer_supervisor_node ''route'' (\<lambda>ms. ''FINISH'') \<lparr>messages = [], next = ''router''\<rparr> =
               Inr cmd
          \<and> goto cmd = END
          \<and> update cmd = \<lparr>u_messages = None, u_next = Some END\<rparr>)"
proof -
  have out: "''validator'' \<notin> {''table_agent'', ''analysis_agent'', ''FINISH''}" by simp
  have allowed: "''FINISH'' \<in> {''table_agent'', ''analysis_agent'', ''FINISH''}" by simp
  from planner_rejects_unknown_next
         [of "''validator''" "\<lambda>ms. ''validator''" "''route''"
             "\<lparr>messages = [], next = ''router''\<rparr>",
          OF refl, THEN conjunct1, THEN mp, OF out, THEN conjunct2]
  have raised:
    "answer_supervisor_node ''route'' (\<lambda>ms. ''validator'') \<lparr>messages = [], next = ''router''\<rparr> =
       Inl (ValidationError [''FINISH'', ''table_agent'', ''analysis_agent''] ''validator'')" .
  from planner_rejects_unknown_next
         [of "''FINISH''" "\<lambda>ms. ''FINISH''" "''route''"
             "\<lparr>messages = [], next = ''router''\<rparr>",
          OF refl, THEN conjunct2, THEN mp, OF allowed]
  obtain cmd where
    cmd: "answer_supervisor_node ''route'' (\<lambda>ms. ''FINISH'') \<lparr>messages = [], next = ''router''\<rparr> =
            Inr cmd"
         "goto cmd = (if ''FINISH'' = ''FINISH'' then END else ''FINISH'')"
         "update cmd = \<lparr>u_messages = None, u_next = Some (goto cmd)\<rparr>"
    by (elim exE conjE)
  from cmd(2) have g: "goto cmd = END" by (simp only: refl if_True)
  from cmd(3) g have u: "update cmd = \<lparr>u_messages = None, u_next = Some END\<rparr>"
    by (simp only:)
  from cmd(1) g u have
    "\<exists>cmd. answer_supervisor_node ''route'' (\<lambda>ms. ''FINISH'') \<lparr>messages = [], next = ''router''\<rparr> =
               Inr cmd
          \<and> goto cmd = END
          \<and> update cmd = \<lparr>u_messages = None, u_next = Some END\<rparr>"
    by (intro exI conjI)
  with out allowed raised show ?thesis by (intro conjI)
qed

text \<open>
  C8. Whatever the state and whatever the agent answers, a command returned by the table
  agent node or by the analysis agent node has the target \<open>router\<close>, and its update is
  a list of exactly one message, a human message labelled with the worker's name; the
  update sets no \<open>next\<close>. When the agent's result holds at least one message, the node
  does return such a command, and the content of its message is the content of the
  agent's last message.
\<close>

theorem workers_hand_back_to_router:
  "(\<forall>cmd. table_agent_node p table_agent state = Inr cmd \<longrightarrow>
        goto cmd = ''router''
        \<and> (\<exists>c. update cmd =
               \<lparr>u_messages = Some [HumanMessage c (Some ''table_agent'')], u_next = None\<rparr>))
   \<and> (\<forall>cmd. analysis_node q analysis_agent state = Inr cmd \<longrightarrow>
        goto cmd = ''router''
        \<and> (\<exists>c. update cmd =
               \<lparr>u_messages = Some [HumanMessage c (Some ''analysis_agent'')], u_next = None\<rparr>))
   \<and> (table_agent (state\<lparr>messages := [SystemMessage p] @ messages state\<rparr>) \<noteq> [] \<longrightarrow>
        table_agent_node p table_agent state =
          Inr \<lparr>goto = ''router'',
               update = \<lparr>u_messages = Some [HumanMessage
                            (content (last (table_agent
                               (state\<lparr>messages := [SystemMessage p] @ messages state\<rparr>))))
                            (Some ''table_agent'')],
                         u_next = None\<rparr>\<rparr>)
   \<and> (analysis_agent (state\<lparr>messages := [SystemMessage q] @ messages state\<rparr>) \<noteq> [] \<longrightarrow>
        analysis_node q analysis_agent state =
          Inr \<lparr>goto = ''router'',
               update = \<lparr>u_messages = Some [HumanMessage
                            (content (last (analysis_agent
                               (state\<lparr>messages := [SystemMessage q] @ messages state\<rparr>))))
                            (Some ''analysis_agent'')],
                         u_next = None\<rparr>\<rparr>)"
proof (intro conjI allI impI)
  fix cmd
  assume "table_agent_node p table_agent state = Inr cmd"
  then show "goto cmd = ''router''"
    by (cases "table_agent (state\<lparr>messages := [SystemMessage p] @ messages state\<rparr>) = []")
       (auto simp: table_agent_node_def Let_def py_index_empty py_index_last)
next
  fix cmd
  assume "table_agent_node p table_agent state = Inr cmd"
  then show "\<exists>c. update cmd =
               \<lparr>u_messages = Some [HumanMessage c (Some ''table_agent'')], u_next = None\<rparr>"
    by (cases "table_agent (state\<lparr>messages := [SystemMessage p] @ messages state\<rparr>) = []")
       (auto simp: table_agent_node_def Let_def py_index_empty py_index_last)
next
  fix cmd
  assume "analysis_node q analysis_agent state = Inr cmd"
  then show "goto cmd = ''router''"
    by (cases "analysis_agent (state\<lparr>messages := [SystemMessage q] @ messages state\<rparr>) = []")
       (auto simp: analysis_node_def Let_def py_index_empty py_index_last)
next
  fix cmd
  assume "analysis_node q analysis_agent state = Inr cmd"
  then show "\<exists>c. update cmd =
               \<lparr>u_messages = Some [HumanMessage c (Some ''analysis_agent'')], u_next = None\<rparr>"
    by (cases "analysis_agent (state\<lparr>messages := [SystemMessage q] @ messages state\<rparr>) = []")
       (auto simp: analysis_node_def Let_def py_index_empty py_index_last)
next
  assume "table_agent (state\<lparr>messages := [SystemMessage p] @ messages state\<rparr>) \<noteq> []"
  then show "table_agent_node p table_agent state =
          Inr \<lparr>goto = ''router'',
               update = \<lparr>u_messages = Some [HumanMessage
                            (content (last (table_agent
                               (state\<lparr>messages := [SystemMessage p] @ messages state\<rparr>))))
                            (Some ''table_agent'')],
                         u_next = None\<rparr>\<rparr>"
    by (simp add: table_agent_node_def Let_def py_index_last)
next
  assume "analysis_agent (state\<lparr>messages := [SystemMessage q] @ messages state\<rparr>) \<noteq> []"
  then show "analysis_node q analysis_agent state =
          Inr \<lparr>goto = ''router'',
               update = \<lparr>u_messages = Some [HumanMessage
                            (content (last (analysis_agent
                               (state\<lparr>messages := [SystemMessage q] @ messages state\<rparr>))))
                            (Some ''analysis_agent'')],
                         u_next = None\<rparr>\<rparr>"
    by (simp add: analysis_node_def Let_def py_index_last)
qed

theorem workers_hand_back_to_router_witness:
  "(\<lambda>s. messages s @ [AIMessage ''done''])
      (\<lparr>messages = [HumanMessage ''Who lives in LA?'' None], next = ''table_agent''\<rparr>
         \<lparr>messages := [SystemMessage ''extract''] @
            messages \<lparr>messages = [HumanMessage ''Who lives in LA?'' None], next = ''table_agent''\<rparr>\<rparr>)
     \<noteq> []
   \<and> table_agent_node ''extract'' (\<lambda>s. messages s @ [AIMessage ''done''])
         \<lparr>messages = [HumanMessage ''Who lives in LA?'' None], next = ''table_agent''\<rparr> =
       Inr \<lparr>goto = ''router'',
            update = \<lparr>u_messages = Some [HumanMessage ''done'' (Some ''table_agent'')],
                      u_next = None\<rparr>\<rparr>
   \<and> analysis_node ''analyse'' (\<lambda>s. messages s @ [AIMessage ''done''])
         \<lparr>messages = [HumanMessage ''Who lives in LA?'' None], next = ''analysis_agent''\<rparr> =
       Inr \<lparr>goto = ''router'',
            update = \<lparr>u_messages = Some [HumanMessage ''done'' (Some ''analysis_agent'')],
                      u_next = None\<rparr>\<rparr>"
proof -
  have c: "content (AIMessage ''done'') = ''done''" by (simp add: AIMessage_def)
  have t: "table_agent_node ''extract'' (\<lambda>s. messages s @ [AIMessage ''done''])
         \<lparr>messages = [HumanMessage ''Who lives in LA?'' None], next = ''table_agent''\<rparr> =
       Inr \<lparr>goto = ''router'',
            update = \<lparr>u_messages = Some [HumanMessage ''done'' (Some ''table_agent'')],
                      u_next = None\<rparr>\<rparr>"
    using workers_hand_back_to_router
            [of "''extract''" "\<lambda>s. messages s @ [AIMessage ''done'']"
                "\<lparr>messages = [HumanMessage ''Who lives in LA?'' None], next = ''table_agent''\<rparr>"]
    by (simp add: c)
  have a: "analysis_node ''analyse'' (\<lambda>s. messages s @ [AIMessage ''done''])
         \<lparr>messages = [HumanMessage ''Who lives in LA?'' None], next = ''analysis_agent''\<rparr> =
       Inr \<lparr>goto = ''router'',
            update = \<lparr>u_messages = Some [HumanMessage ''done'' (Some ''analysis_agent'')],
                      u_next = None\<rparr>\<rparr>"
    using workers_hand_back_to_router
            [of _ _ "\<lparr>messages = [HumanMessage ''Who lives in LA?'' None], next = ''analysis_agent''\<rparr>"
                "''analyse''" "\<lambda>s. messages s @ [AIMessage ''done'']"]
    by (simp add: c)
  from t a show ?thesis by simp
qed


end
